theory Spec2Isabelle
  imports Complex_Main
begin

section \<open>Numbers and arrays\<close>

text \<open>
  The embedding vectors of the system are one-dimensional NumPy arrays of IEEE
  floating-point numbers. A number is modelled by its value: a finite real, one of the two
  infinities, or NaN. The special values follow IEEE-754 (NumPy warns and continues on a
  division by zero, it does not raise). Finite arithmetic is exact: rounding, overflow of
  finite results and the sign of zero are not part of this model.
\<close>

datatype npfloat = Fin real | PInf | MInf | NaN

type_synonym ndarray = "npfloat list"

text \<open>The exceptions NumPy raises in the code below: a shape mismatch is a \<open>ValueError\<close>.\<close>

datatype error = ValueError

fun f_add :: "npfloat \<Rightarrow> npfloat \<Rightarrow> npfloat" where
  "f_add (Fin x) (Fin y) = Fin (x + y)"
| "f_add NaN _ = NaN"
| "f_add _ NaN = NaN"
| "f_add PInf MInf = NaN"
| "f_add MInf PInf = NaN"
| "f_add PInf _ = PInf"
| "f_add _ PInf = PInf"
| "f_add MInf _ = MInf"
| "f_add _ MInf = MInf"

fun f_mul :: "npfloat \<Rightarrow> npfloat \<Rightarrow> npfloat" where
  "f_mul (Fin x) (Fin y) = Fin (x * y)"
| "f_mul NaN _ = NaN"
| "f_mul _ NaN = NaN"
| "f_mul (Fin x) PInf = (if x = 0 then NaN else if 0 < x then PInf else MInf)"
| "f_mul (Fin x) MInf = (if x = 0 then NaN else if 0 < x then MInf else PInf)"
| "f_mul PInf (Fin y) = (if y = 0 then NaN else if 0 < y then PInf else MInf)"
| "f_mul MInf (Fin y) = (if y = 0 then NaN else if 0 < y then MInf else PInf)"
| "f_mul PInf PInf = PInf"
| "f_mul PInf MInf = MInf"
| "f_mul MInf PInf = MInf"
| "f_mul MInf MInf = PInf"

text \<open>Division: \<open>0/0\<close> and \<open>inf/inf\<close> are NaN, \<open>x/0\<close> is an infinity of the sign of \<open>x\<close>.\<close>

fun f_div :: "npfloat \<Rightarrow> npfloat \<Rightarrow> npfloat" where
  "f_div (Fin x) (Fin y) =
     (if y = 0 then (if x = 0 then NaN else if 0 < x then PInf else MInf)
      else Fin (x / y))"
| "f_div NaN _ = NaN"
| "f_div _ NaN = NaN"
| "f_div (Fin x) PInf = Fin 0"
| "f_div (Fin x) MInf = Fin 0"
| "f_div PInf (Fin y) = (if 0 \<le> y then PInf else MInf)"
| "f_div MInf (Fin y) = (if 0 \<le> y then MInf else PInf)"
| "f_div PInf PInf = NaN"
| "f_div PInf MInf = NaN"
| "f_div MInf PInf = NaN"
| "f_div MInf MInf = NaN"

fun f_sqrt :: "npfloat \<Rightarrow> npfloat" where
  "f_sqrt (Fin x) = (if x < 0 then NaN else Fin (sqrt x))"
| "f_sqrt PInf = PInf"
| "f_sqrt MInf = NaN"
| "f_sqrt NaN = NaN"

text \<open>Comparisons: every comparison with NaN is false.\<close>

fun f_gt :: "npfloat \<Rightarrow> npfloat \<Rightarrow> bool" where
  "f_gt (Fin x) (Fin y) = (y < x)"
| "f_gt NaN _ = False"
| "f_gt _ NaN = False"
| "f_gt PInf PInf = False"
| "f_gt PInf _ = True"
| "f_gt MInf _ = False"
| "f_gt (Fin x) PInf = False"
| "f_gt (Fin x) MInf = True"

fun f_ge :: "npfloat \<Rightarrow> npfloat \<Rightarrow> bool" where
  "f_ge (Fin x) (Fin y) = (y \<le> x)"
| "f_ge NaN _ = False"
| "f_ge _ NaN = False"
| "f_ge PInf _ = True"
| "f_ge MInf MInf = True"
| "f_ge MInf _ = False"
| "f_ge (Fin x) PInf = False"
| "f_ge (Fin x) MInf = True"

text \<open>\<open>np.sum\<close> of a one-dimensional array; the sum of no number is \<open>0.0\<close>.\<close>

fun np_sum :: "ndarray \<Rightarrow> npfloat" where
  "np_sum [] = Fin 0"
| "np_sum (x # xs) = f_add x (np_sum xs)"

text \<open>\<open>np.linalg.norm\<close> of a one-dimensional array: the square root of the sum of squares.\<close>

definition np_norm :: "ndarray \<Rightarrow> npfloat" where
  "np_norm v = f_sqrt (np_sum (map (\<lambda>x. f_mul x x) v))"

text \<open>\<open>v / s\<close> for an array \<open>v\<close> and a scalar \<open>s\<close>.\<close>

definition np_div_scalar :: "ndarray \<Rightarrow> npfloat \<Rightarrow> ndarray" where
  "np_div_scalar v s = map (\<lambda>x. f_div x s) v"

text \<open>\<open>np.dot\<close> of two one-dimensional arrays raises when their lengths differ.\<close>

definition np_dot :: "ndarray \<Rightarrow> ndarray \<Rightarrow> error + npfloat" where
  "np_dot a b =
     (if length a \<noteq> length b then Inl ValueError
      else Inr (np_sum (map (\<lambda>(x, y). f_mul x y) (zip a b))))"

section \<open>FaceMatcher (face\_utils.py)\<close>

text \<open>The two thresholds are read from the configuration when the matcher is built.\<close>

record FaceMatcher =
  threshold_match :: npfloat
  threshold_uncertain :: npfloat

text \<open>The body of the \<open>try\<close> block of \<open>cosine_similarity\<close>.\<close>

definition cosine_similarity_try :: "ndarray \<Rightarrow> ndarray \<Rightarrow> error + npfloat" where
  "cosine_similarity_try embedding1 embedding2 =
     (let e1 = np_div_scalar embedding1 (np_norm embedding1);
          e2 = np_div_scalar embedding2 (np_norm embedding2)
      in np_dot e1 e2)"

text \<open>\<open>except Exception\<close>: whatever the body raises, the function returns \<open>0.0\<close>.\<close>

definition cosine_similarity :: "ndarray \<Rightarrow> ndarray \<Rightarrow> error + npfloat" where
  "cosine_similarity embedding1 embedding2 =
     (case cosine_similarity_try embedding1 embedding2 of
        Inl e \<Rightarrow> Inr (Fin 0)
      | Inr similarity \<Rightarrow> Inr similarity)"

definition match :: "FaceMatcher \<Rightarrow> ndarray \<Rightarrow> ndarray \<Rightarrow> error + (string \<times> npfloat)" where
  "match self query_embedding reference_embedding =
     (case cosine_similarity query_embedding reference_embedding of
        Inl e \<Rightarrow> Inl e
      | Inr similarity \<Rightarrow>
          Inr (if f_ge similarity (threshold_match self) then ''MATCH''
               else if f_ge similarity (threshold_uncertain self) then ''UNCERTAIN''
               else ''NO_MATCH'',
               similarity))"

text \<open>
  A gallery entry is a dictionary with the keys \<open>student_id\<close>, \<open>name\<close>, \<open>class\<close> and
  \<open>embedding\<close> (the database may deliver no class). The result of a search is a dictionary
  with the first three keys, \<open>similarity\<close> and \<open>status\<close>.
\<close>

record student_info =
  student_id :: string
  name :: string
  class_name :: "string option"

record student = student_info +
  embedding :: ndarray

record best_match = student_info +
  similarity :: npfloat
  status :: string

text \<open>
  The \<open>for\<close> loop of \<open>find_best_match\<close>; the state is
  \<open>(best_match, best_score, best_status)\<close>.
\<close>

fun find_best_match_loop ::
  "FaceMatcher \<Rightarrow> ndarray \<Rightarrow> student list \<Rightarrow> best_match option \<times> npfloat \<times> string \<Rightarrow>
   error + (best_match option \<times> npfloat \<times> string)" where
  "find_best_match_loop self query_embedding [] st = Inr st"
| "find_best_match_loop self query_embedding (s # students) (best_match, best_score, best_status) =
     (case match self query_embedding (embedding s) of
        Inl e \<Rightarrow> Inl e
      | Inr (status', score) \<Rightarrow>
          if f_gt score best_score
          then find_best_match_loop self query_embedding students
                 (Some \<lparr>student_id = student_id s, name = name s, class_name = class_name s,
                         similarity = score, status = status'\<rparr>,
                  score, status')
          else find_best_match_loop self query_embedding students
                 (best_match, best_score, best_status))"

definition find_best_match ::
  "FaceMatcher \<Rightarrow> ndarray \<Rightarrow> student list \<Rightarrow> error + best_match option" where
  "find_best_match self query_embedding students =
     (case find_best_match_loop self query_embedding students (None, Fin (- 1), ''NO_MATCH'') of
        Inl e \<Rightarrow> Inl e
      | Inr (best_match, best_score, best_status) \<Rightarrow> Inr best_match)"

section \<open>MultiImageTrainer (multi\_image\_trainer.py)\<close>

text \<open>
  \<open>np.array\<close> of a list of one-dimensional arrays is a matrix with one row for each
  array; rows of different lengths are refused with a \<open>ValueError\<close>.
\<close>

definition np_array :: "ndarray list \<Rightarrow> error + ndarray list" where
  "np_array embeddings =
     (if list_all (\<lambda>e. length e = length (hd embeddings)) embeddings then Inr embeddings
      else Inl ValueError)"

text \<open>
  The operations along \<open>axis=0\<close> work on each column of the matrix by itself. The columns
  of a matrix with at least one row:
\<close>

definition columns :: "ndarray list \<Rightarrow> ndarray list" where
  "columns arr = map (\<lambda>j. map (\<lambda>row. row ! j) arr) [0..<length (hd arr)]"

text \<open>\<open>np.mean\<close> of one column; the mean of no number is \<open>0/0\<close>, which is NaN.\<close>

definition np_mean :: "ndarray \<Rightarrow> npfloat" where
  "np_mean col = f_div (np_sum col) (Fin (real (length col)))"

definition np_mean_axis0 :: "ndarray list \<Rightarrow> ndarray" where
  "np_mean_axis0 arr = map np_mean (columns arr)"

text \<open>\<open>np.sort\<close> of one column: ascending, the NaNs last.\<close>

fun fin_values :: "ndarray \<Rightarrow> real list" where
  "fin_values [] = []"
| "fin_values (Fin x # xs) = x # fin_values xs"
| "fin_values (_ # xs) = fin_values xs"

definition np_sort :: "ndarray \<Rightarrow> ndarray" where
  "np_sort col =
     filter (\<lambda>x. x = MInf) col @ map Fin (sort (fin_values col)) @
     filter (\<lambda>x. x = PInf) col @ filter (\<lambda>x. x = NaN) col"

text \<open>
  \<open>np.median\<close> of one column: NaN when the column holds a NaN, else the mean of the middle
  element, or of the two middle elements, of the sorted column.
\<close>

definition np_median :: "ndarray \<Rightarrow> npfloat" where
  "np_median col =
     (let n = length col; part = np_sort col in
      if n = 0 \<or> NaN \<in> set col then NaN
      else if n mod 2 = 1 then np_mean [part ! (n div 2)]
      else np_mean [part ! (n div 2 - 1), part ! (n div 2)])"

text \<open>The body of the \<open>try\<close> block of \<open>compute_average_embedding\<close>; \<open>None\<close> is Python's.\<close>

definition compute_average_embedding_try :: "ndarray list \<Rightarrow> error + ndarray option" where
  "compute_average_embedding_try embeddings =
     (if length embeddings = 0 then Inr None
      else case np_array embeddings of
        Inl e \<Rightarrow> Inl e
      | Inr embeddings_array \<Rightarrow>
          (let avg_embedding = np_mean_axis0 embeddings_array;
               avg_embedding = np_div_scalar avg_embedding (np_norm avg_embedding)
           in Inr (Some avg_embedding)))"

definition compute_average_embedding :: "ndarray list \<Rightarrow> error + ndarray option" where
  "compute_average_embedding embeddings =
     (case compute_average_embedding_try embeddings of
        Inl e \<Rightarrow> Inr None
      | Inr r \<Rightarrow> Inr r)"

text \<open>
  \<open>int(len(embeddings) * 0.1)\<close> is the length divided by ten, rounded down (the product
  is rounded to a float first, which changes nothing for a length that a list can have).
\<close>

definition n_remove_of :: "nat \<Rightarrow> nat" where
  "n_remove_of n = max 1 (n div 10)"

text \<open>
  The row slice \<open>sorted_emb[n_remove:-n_remove, :]\<close>, taken in each sorted column: the
  entries from index \<open>n_remove\<close> up to, and without, index \<open>len - n_remove\<close>.
\<close>

definition trim :: "nat \<Rightarrow> ndarray \<Rightarrow> ndarray" where
  "trim n_remove col = drop n_remove (take (length col - n_remove) col)"

definition compute_robust_embedding_try ::
  "ndarray list \<Rightarrow> string \<Rightarrow> error + ndarray option" where
  "compute_robust_embedding_try embeddings method =
     (if length embeddings = 0 then Inr None
      else case np_array embeddings of
        Inl e \<Rightarrow> Inl e
      | Inr embeddings_array \<Rightarrow>
          (let robust_embedding =
                 (if method = ''median'' then map np_median (columns embeddings_array)
                  else if method = ''trimmed_mean'' then
                    (let n_remove = n_remove_of (length embeddings);
                         sorted_emb = map np_sort (columns embeddings_array);
                         trimmed = map (trim n_remove) sorted_emb
                     in map np_mean trimmed)
                  else np_mean_axis0 embeddings_array);
               robust_embedding = np_div_scalar robust_embedding (np_norm robust_embedding)
           in Inr (Some robust_embedding)))"

definition compute_robust_embedding ::
  "ndarray list \<Rightarrow> string \<Rightarrow> error + ndarray option" where
  "compute_robust_embedding embeddings method =
     (case compute_robust_embedding_try embeddings method of
        Inl e \<Rightarrow> Inr None
      | Inr r \<Rightarrow> Inr r)"

text \<open>The loop of \<open>filter_outliers\<close> that collects the similarities to the centroid.\<close>

fun similarities_loop :: "ndarray \<Rightarrow> ndarray list \<Rightarrow> error + npfloat list" where
  "similarities_loop centroid [] = Inr []"
| "similarities_loop centroid (emb # embeddings) =
     (let norm_emb = np_div_scalar emb (np_norm emb) in
      case np_dot norm_emb centroid of
        Inl e \<Rightarrow> Inl e
      | Inr sim \<Rightarrow>
          (case similarities_loop centroid embeddings of
             Inl e \<Rightarrow> Inl e
           | Inr similarities \<Rightarrow> Inr (sim # similarities)))"

definition filter_outliers_try :: "ndarray list \<Rightarrow> npfloat \<Rightarrow> error + ndarray list" where
  "filter_outliers_try embeddings threshold =
     (if length embeddings \<le> 2 then Inr embeddings
      else case np_array embeddings of
        Inl e \<Rightarrow> Inl e
      | Inr embeddings_array \<Rightarrow>
          (let centroid = np_mean_axis0 embeddings_array;
               centroid = np_div_scalar centroid (np_norm centroid)
           in case similarities_loop centroid embeddings of
                Inl e \<Rightarrow> Inl e
              | Inr similarities \<Rightarrow>
                  (let filtered =
                         map fst (filter (\<lambda>(emb, sim). f_ge sim threshold)
                                    (zip embeddings similarities))
                   in if length filtered = 0 then Inr embeddings else Inr filtered)))"

definition filter_outliers :: "ndarray list \<Rightarrow> npfloat \<Rightarrow> error + ndarray list" where
  "filter_outliers embeddings threshold =
     (case filter_outliers_try embeddings threshold of
        Inl e \<Rightarrow> Inr embeddings
      | Inr r \<Rightarrow> Inr r)"

text \<open>A call that leaves the threshold to its default, \<open>threshold: float = 0.3\<close>.\<close>

definition filter_outliers_default :: "ndarray list \<Rightarrow> error + ndarray list" where
  "filter_outliers_default embeddings = filter_outliers embeddings (Fin 0.3)"

section \<open>The aggregation as the specification words it\<close>

text \<open>
  To be compared with the functions above. These definitions are written on the arithmetic
  alone and use none of the functions that model NumPy: the element-wise mean of a
  collection divides the sum of each component by the number of members; the L2 norm is
  the square root of the sum of the squares, and a vector is L2-normalized by dividing
  each component by the norm; the similarity of two normalized vectors is their dot
  product. The centroid is the L2-normalized mean of the inputs; an input is kept when its
  L2-normalized form has a similarity to the centroid of at least the threshold; a
  collection of at most two members is returned as it is, and so is one of which nothing
  would be kept.
\<close>

definition spec_sum :: "npfloat list \<Rightarrow> npfloat" where
  "spec_sum xs = foldr f_add xs (Fin 0)"

definition spec_mean :: "ndarray list \<Rightarrow> ndarray" where
  "spec_mean embeddings =
     map (\<lambda>component. f_div (spec_sum component) (Fin (real (length embeddings))))
       (transpose embeddings)"

definition spec_l2_norm :: "ndarray \<Rightarrow> npfloat" where
  "spec_l2_norm v = f_sqrt (spec_sum (map (\<lambda>x. f_mul x x) v))"

definition spec_l2_normalize :: "ndarray \<Rightarrow> ndarray" where
  "spec_l2_normalize v = map (\<lambda>x. f_div x (spec_l2_norm v)) v"

definition spec_dot :: "ndarray \<Rightarrow> ndarray \<Rightarrow> npfloat" where
  "spec_dot a b = spec_sum (map2 f_mul a b)"

definition spec_centroid :: "ndarray list \<Rightarrow> ndarray" where
  "spec_centroid embeddings = spec_l2_normalize (spec_mean embeddings)"

definition spec_keeps :: "ndarray list \<Rightarrow> npfloat \<Rightarrow> ndarray \<Rightarrow> bool" where
  "spec_keeps embeddings threshold emb =
     f_ge (spec_dot (spec_l2_normalize emb) (spec_centroid embeddings)) threshold"

definition spec_filter_outliers :: "ndarray list \<Rightarrow> npfloat \<Rightarrow> ndarray list" where
  "spec_filter_outliers embeddings threshold =
     (if length embeddings \<le> 2 then embeddings
      else let kept = filter (spec_keeps embeddings threshold) embeddings
           in if kept = [] then embeddings else kept)"

section \<open>Basic facts\<close>

lemma sqrt_25: "sqrt 25 = 5"
  by (rule real_sqrt_unique) simp_all

lemma sqrt_100: "sqrt 100 = 10"
  by (rule real_sqrt_unique) simp_all

lemma sqrt_400: "sqrt 400 = 20"
  by (rule real_sqrt_unique) simp_all

lemma cosine_similarity_returns: "\<exists>s. cosine_similarity a b = Inr s"
  by (simp add: cosine_similarity_def split: sum.split)

lemma f_ge_refl: "x \<noteq> NaN \<Longrightarrow> f_ge x x"
  by (cases x) simp_all

lemmas cs_defs =
  cosine_similarity_def cosine_similarity_try_def np_dot_def np_norm_def np_div_scalar_def

text \<open>Some similarities, computed.\<close>

lemma cs_065:
  "cosine_similarity [Fin 1, Fin 0, Fin 0, Fin 0, Fin 0] [Fin 13, Fin 15, Fin 2, Fin 1, Fin 1]
   = Inr (Fin 0.65)"
  by (simp add: cs_defs sqrt_400)

lemma cs_05:
  "cosine_similarity [Fin 1, Fin 0, Fin 0, Fin 0] [Fin 1, Fin 1, Fin 1, Fin 1] = Inr (Fin 0.5)"
  by (simp add: cs_defs)

lemma cs_02:
  "cosine_similarity [Fin 1, Fin 0, Fin 0, Fin 0] [Fin 1, Fin 4, Fin 2, Fin 2] = Inr (Fin 0.2)"
  by (simp add: cs_defs sqrt_25)

lemma cs_06: "cosine_similarity [Fin 1, Fin 0] [Fin 3, Fin 4] = Inr (Fin 0.6)"
  by (simp add: cs_defs sqrt_25)

lemma cs_04:
  "cosine_similarity [Fin 1, Fin 0, Fin 0, Fin 0] [Fin 2, Fin 4, Fin 2, Fin 1] = Inr (Fin 0.4)"
  by (simp add: cs_defs sqrt_25)

section \<open>The tri-state rule of \<open>match\<close>\<close>

text \<open>
  C1. For every query, reference and pair of thresholds, \<open>match\<close> returns the similarity
  that \<open>cosine_similarity\<close> computes, with the status MATCH when the score is at least the
  match threshold, else UNCERTAIN when it is at least the uncertain threshold, else
  NO\_MATCH. A score equal to a threshold belongs to the higher tier. With the thresholds
  0.6 and 0.4, the scores 0.65, 0.5 and 0.2 give MATCH, UNCERTAIN and NO\_MATCH.
\<close>

theorem match_tiers:
  "\<exists>score. cosine_similarity q r = Inr score \<and>
     (f_ge score (threshold_match self) \<longrightarrow> match self q r = Inr (''MATCH'', score)) \<and>
     (\<not> f_ge score (threshold_match self) \<and> f_ge score (threshold_uncertain self) \<longrightarrow>
        match self q r = Inr (''UNCERTAIN'', score)) \<and>
     (\<not> f_ge score (threshold_match self) \<and> \<not> f_ge score (threshold_uncertain self) \<longrightarrow>
        match self q r = Inr (''NO_MATCH'', score)) \<and>
     (score \<noteq> NaN \<and> score = threshold_match self \<longrightarrow>
        match self q r = Inr (''MATCH'', score)) \<and>
     (score \<noteq> NaN \<and> score = threshold_uncertain self \<and>
      \<not> f_ge score (threshold_match self) \<longrightarrow>
        match self q r = Inr (''UNCERTAIN'', score)) \<and>
     (threshold_match self = Fin 0.6 \<and> threshold_uncertain self = Fin 0.4 \<longrightarrow>
        (score = Fin 0.65 \<longrightarrow> match self q r = Inr (''MATCH'', score)) \<and>
        (score = Fin 0.5 \<longrightarrow> match self q r = Inr (''UNCERTAIN'', score)) \<and>
        (score = Fin 0.2 \<longrightarrow> match self q r = Inr (''NO_MATCH'', score)))"
proof -
  obtain s where s: "cosine_similarity q r = Inr s"
    using cosine_similarity_returns by blast
  have "f_ge s s" if "s \<noteq> NaN"
    using that by (rule f_ge_refl)
  then show ?thesis
    using s by (auto simp: match_def)
qed

theorem match_tiers_witness:
  "match \<lparr>threshold_match = Fin 0.6, threshold_uncertain = Fin 0.4\<rparr>
     [Fin 1, Fin 0, Fin 0, Fin 0, Fin 0] [Fin 13, Fin 15, Fin 2, Fin 1, Fin 1]
   = Inr (''MATCH'', Fin 0.65) \<and>
   match \<lparr>threshold_match = Fin 0.6, threshold_uncertain = Fin 0.4\<rparr>
     [Fin 1, Fin 0, Fin 0, Fin 0] [Fin 1, Fin 1, Fin 1, Fin 1]
   = Inr (''UNCERTAIN'', Fin 0.5) \<and>
   match \<lparr>threshold_match = Fin 0.6, threshold_uncertain = Fin 0.4\<rparr>
     [Fin 1, Fin 0, Fin 0, Fin 0] [Fin 1, Fin 4, Fin 2, Fin 2]
   = Inr (''NO_MATCH'', Fin 0.2) \<and>
   match \<lparr>threshold_match = Fin 0.6, threshold_uncertain = Fin 0.4\<rparr>
     [Fin 1, Fin 0] [Fin 3, Fin 4]
   = Inr (''MATCH'', Fin 0.6) \<and>
   match \<lparr>threshold_match = Fin 0.6, threshold_uncertain = Fin 0.4\<rparr>
     [Fin 1, Fin 0, Fin 0, Fin 0] [Fin 2, Fin 4, Fin 2, Fin 1]
   = Inr (''UNCERTAIN'', Fin 0.4)"
proof (intro conjI)
  let ?m = "\<lparr>threshold_match = Fin 0.6, threshold_uncertain = Fin 0.4\<rparr>"
  show "match ?m [Fin 1, Fin 0, Fin 0, Fin 0, Fin 0] [Fin 13, Fin 15, Fin 2, Fin 1, Fin 1]
        = Inr (''MATCH'', Fin 0.65)"
    using match_tiers [of "[Fin 1, Fin 0, Fin 0, Fin 0, Fin 0]"
        "[Fin 13, Fin 15, Fin 2, Fin 1, Fin 1]" ?m]
    by (auto simp: cs_065)
  show "match ?m [Fin 1, Fin 0, Fin 0, Fin 0] [Fin 1, Fin 1, Fin 1, Fin 1]
        = Inr (''UNCERTAIN'', Fin 0.5)"
    using match_tiers [of "[Fin 1, Fin 0, Fin 0, Fin 0]" "[Fin 1, Fin 1, Fin 1, Fin 1]" ?m]
    by (auto simp: cs_05)
  show "match ?m [Fin 1, Fin 0, Fin 0, Fin 0] [Fin 1, Fin 4, Fin 2, Fin 2]
        = Inr (''NO_MATCH'', Fin 0.2)"
    using match_tiers [of "[Fin 1, Fin 0, Fin 0, Fin 0]" "[Fin 1, Fin 4, Fin 2, Fin 2]" ?m]
    by (auto simp: cs_02)
  show "match ?m [Fin 1, Fin 0] [Fin 3, Fin 4] = Inr (''MATCH'', Fin 0.6)"
    using match_tiers [of "[Fin 1, Fin 0]" "[Fin 3, Fin 4]" ?m]
    by (auto simp: cs_06)
  show "match ?m [Fin 1, Fin 0, Fin 0, Fin 0] [Fin 2, Fin 4, Fin 2, Fin 1]
        = Inr (''UNCERTAIN'', Fin 0.4)"
    using match_tiers [of "[Fin 1, Fin 0, Fin 0, Fin 0]" "[Fin 2, Fin 4, Fin 2, Fin 1]" ?m]
    by (auto simp: cs_04)
qed

section \<open>The gallery scan of \<open>find_best_match\<close>\<close>

lemma match_returns: "\<exists>st sc. match self q r = Inr (st, sc)"
  using cosine_similarity_returns [of q r] by (auto simp: match_def)

lemma f_gt_trans: "f_gt a b \<Longrightarrow> f_gt b c \<Longrightarrow> f_gt a c"
  by (cases a; cases b; cases c) simp_all

lemma f_gt_not_ge: "f_gt a b \<Longrightarrow> \<not> f_ge b a"
  by (cases a; cases b) simp_all

lemma f_gt_imp_ge: "f_gt a b \<Longrightarrow> f_ge a b"
  by (cases a; cases b) simp_all

lemma not_gt_below: "\<not> f_gt a b \<Longrightarrow> f_gt c b \<Longrightarrow> \<not> f_ge a c"
  by (cases a; cases b; cases c) simp_all

text \<open>
  The loop, from any state: either no entry scores above the running best and the state is
  returned as it is, or the list splits at the entry that is adopted last; no entry scores
  above it, and every entry before it scores below it (or has no score that compares).
\<close>

lemma find_best_match_loop_char:
  assumes m: "\<And>s. match self q (embedding s) = Inr (stf s, scf s)"
  shows "(find_best_match_loop self q ss (bm, bs, bst) = Inr (bm, bs, bst) \<and>
          (\<forall>x\<in>set ss. \<not> f_gt (scf x) bs)) \<or>
         (\<exists>pre s post. ss = pre @ s # post \<and>
            find_best_match_loop self q ss (bm, bs, bst) =
              Inr (Some \<lparr>student_id = student_id s, name = name s, class_name = class_name s,
                         similarity = scf s, status = stf s\<rparr>, scf s, stf s) \<and>
            f_gt (scf s) bs \<and>
            (\<forall>x\<in>set ss. \<not> f_gt (scf x) (scf s)) \<and>
            (\<forall>x\<in>set pre. \<not> f_ge (scf x) (scf s)))"
proof (induction ss arbitrary: bm bs bst)
  case Nil
  then show ?case by simp
next
  case (Cons a ss)
  show ?case
  proof (cases "f_gt (scf a) bs")
    case True
    let ?bm = "Some \<lparr>student_id = student_id a, name = name a, class_name = class_name a,
                         similarity = scf a, status = stf a\<rparr>"
    have step: "find_best_match_loop self q (a # ss) (bm, bs, bst) =
        find_best_match_loop self q ss (?bm, scf a, stf a)"
      using True by (simp add: m)
    from Cons.IH [of ?bm "scf a" "stf a"] show ?thesis
    proof (elim disjE conjE exE)
      assume "find_best_match_loop self q ss (?bm, scf a, stf a) = Inr (?bm, scf a, stf a)"
        and "\<forall>x\<in>set ss. \<not> f_gt (scf x) (scf a)"
      moreover have "\<not> f_gt (scf a) (scf a)"
        by (cases "scf a") simp_all
      ultimately have "a # ss = [] @ a # ss \<and>
            find_best_match_loop self q (a # ss) (bm, bs, bst) = Inr (?bm, scf a, stf a) \<and>
            f_gt (scf a) bs \<and>
            (\<forall>x\<in>set (a # ss). \<not> f_gt (scf x) (scf a)) \<and>
            (\<forall>x\<in>set []. \<not> f_ge (scf x) (scf a))"
        using True step by simp
      then show ?thesis by blast
    next
      fix pre s post
      assume ss: "ss = pre @ s # post"
        and r: "find_best_match_loop self q ss (?bm, scf a, stf a) =
              Inr (Some \<lparr>student_id = student_id s, name = name s, class_name = class_name s,
                         similarity = scf s, status = stf s\<rparr>, scf s, stf s)"
        and gt: "f_gt (scf s) (scf a)"
        and mx: "\<forall>x\<in>set ss. \<not> f_gt (scf x) (scf s)"
        and pr: "\<forall>x\<in>set pre. \<not> f_ge (scf x) (scf s)"
      have a1: "\<not> f_ge (scf a) (scf s)"
        using gt by (rule f_gt_not_ge)
      then have a2: "\<not> f_gt (scf a) (scf s)"
        using f_gt_imp_ge by blast
      have "f_gt (scf s) bs"
        using gt True by (rule f_gt_trans)
      then have "a # ss = (a # pre) @ s # post \<and>
            find_best_match_loop self q (a # ss) (bm, bs, bst) =
              Inr (Some \<lparr>student_id = student_id s, name = name s, class_name = class_name s,
                         similarity = scf s, status = stf s\<rparr>, scf s, stf s) \<and>
            f_gt (scf s) bs \<and>
            (\<forall>x\<in>set (a # ss). \<not> f_gt (scf x) (scf s)) \<and>
            (\<forall>x\<in>set (a # pre). \<not> f_ge (scf x) (scf s))"
        using ss r mx pr a1 a2 step by simp
      then show ?thesis by blast
    qed
  next
    case False
    have step: "find_best_match_loop self q (a # ss) (bm, bs, bst) =
        find_best_match_loop self q ss (bm, bs, bst)"
      using False by (simp add: m)
    from Cons.IH [of bm bs bst] show ?thesis
    proof (elim disjE conjE exE)
      assume "find_best_match_loop self q ss (bm, bs, bst) = Inr (bm, bs, bst)"
        and "\<forall>x\<in>set ss. \<not> f_gt (scf x) bs"
      then show ?thesis
        using False step by simp
    next
      fix pre s post
      assume ss: "ss = pre @ s # post"
        and r: "find_best_match_loop self q ss (bm, bs, bst) =
              Inr (Some \<lparr>student_id = student_id s, name = name s, class_name = class_name s,
                         similarity = scf s, status = stf s\<rparr>, scf s, stf s)"
        and gt: "f_gt (scf s) bs"
        and mx: "\<forall>x\<in>set ss. \<not> f_gt (scf x) (scf s)"
        and pr: "\<forall>x\<in>set pre. \<not> f_ge (scf x) (scf s)"
      have a1: "\<not> f_ge (scf a) (scf s)"
        using False gt by (rule not_gt_below)
      then have a2: "\<not> f_gt (scf a) (scf s)"
        using f_gt_imp_ge by blast
      have "a # ss = (a # pre) @ s # post \<and>
            find_best_match_loop self q (a # ss) (bm, bs, bst) =
              Inr (Some \<lparr>student_id = student_id s, name = name s, class_name = class_name s,
                         similarity = scf s, status = stf s\<rparr>, scf s, stf s) \<and>
            f_gt (scf s) bs \<and>
            (\<forall>x\<in>set (a # ss). \<not> f_gt (scf x) (scf s)) \<and>
            (\<forall>x\<in>set (a # pre). \<not> f_ge (scf x) (scf s))"
        using ss r gt mx pr a1 a2 step by simp
      then show ?thesis by blast
    qed
  qed
qed


lemma cs_07a:
  "cosine_similarity [Fin 1, Fin 0, Fin 0, Fin 0] [Fin 7, Fin 7, Fin 1, Fin 1] = Inr (Fin 0.7)"
  by (simp add: cs_defs sqrt_100)

lemma cs_07b:
  "cosine_similarity [Fin 1, Fin 0, Fin 0, Fin 0] [Fin 7, Fin 1, Fin 7, Fin 1] = Inr (Fin 0.7)"
  by (simp add: cs_defs sqrt_100)

lemma cs_opposite: "cosine_similarity [Fin 1, Fin 0] [Fin (- 1), Fin 0] = Inr (Fin (- 1))"
  by (simp add: cs_defs)

text \<open>
  C2 (amended). For every gallery in which some entry scores strictly above \<open>-1\<close>,
  \<open>find_best_match\<close> returns an entry of the gallery with the status and the score that
  \<open>match\<close> gives it, whatever that status is; its score is strictly above \<open>-1\<close> (so it
  is a number that compares), no entry of the gallery scores strictly above it, and no
  entry scanned before it scores as high, so of several entries with the highest score
  the first one scanned is returned. For entries scoring 0.5, 0.7 and 0.7 in
  scan order the second one is returned.
\<close>

theorem find_best_match_first_max:
  "((\<exists>x\<in>set students. \<exists>st sc. match self q (embedding x) = Inr (st, sc) \<and> f_gt sc (Fin (- 1))) \<longrightarrow>
     (\<exists>pre s post st sc. students = pre @ s # post \<and>
        match self q (embedding s) = Inr (st, sc) \<and>
        find_best_match self q students =
          Inr (Some \<lparr>student_id = student_id s, name = name s, class_name = class_name s,
                     similarity = sc, status = st\<rparr>) \<and>
        f_gt sc (Fin (- 1)) \<and>
        (\<forall>x\<in>set students. \<forall>st' sc'. match self q (embedding x) = Inr (st', sc') \<longrightarrow>
           \<not> f_gt sc' sc) \<and>
        (\<forall>x\<in>set pre. \<forall>st' sc'. match self q (embedding x) = Inr (st', sc') \<longrightarrow>
           \<not> f_ge sc' sc))) \<and>
   (match self q (embedding s1) = Inr (st1, Fin 0.5) \<and>
    match self q (embedding s2) = Inr (st2, Fin 0.7) \<and>
    match self q (embedding s3) = Inr (st3, Fin 0.7) \<longrightarrow>
      find_best_match self q [s1, s2, s3] =
        Inr (Some \<lparr>student_id = student_id s2, name = name s2, class_name = class_name s2,
                   similarity = Fin 0.7, status = st2\<rparr>))"
proof (intro conjI impI)
  define stf where "stf s = fst (projr (match self q (embedding s)))" for s :: student
  define scf where "scf s = snd (projr (match self q (embedding s)))" for s :: student
  have m: "match self q (embedding s) = Inr (stf s, scf s)" for s
    using match_returns [of self q "embedding s"] by (auto simp: stf_def scf_def)
  assume "\<exists>x\<in>set students. \<exists>st sc. match self q (embedding x) = Inr (st, sc) \<and> f_gt sc (Fin (- 1))"
  then obtain x where x: "x \<in> set students" "f_gt (scf x) (Fin (- 1))"
    by (auto simp: m)
  from find_best_match_loop_char [where scf = scf and stf = stf, OF m,
      of students None "Fin (- 1)" "''NO_MATCH''"]
  obtain pre s post where ss: "students = pre @ s # post"
    and r: "find_best_match_loop self q students (None, Fin (- 1), ''NO_MATCH'') =
              Inr (Some \<lparr>student_id = student_id s, name = name s, class_name = class_name s,
                         similarity = scf s, status = stf s\<rparr>, scf s, stf s)"
    and gt: "f_gt (scf s) (Fin (- 1))"
    and mx: "\<forall>x\<in>set students. \<not> f_gt (scf x) (scf s)"
    and pr: "\<forall>x\<in>set pre. \<not> f_ge (scf x) (scf s)"
    using x by blast
  have "students = pre @ s # post \<and>
        match self q (embedding s) = Inr (stf s, scf s) \<and>
        find_best_match self q students =
          Inr (Some \<lparr>student_id = student_id s, name = name s, class_name = class_name s,
                     similarity = scf s, status = stf s\<rparr>) \<and>
        f_gt (scf s) (Fin (- 1)) \<and>
        (\<forall>x\<in>set students. \<forall>st' sc'. match self q (embedding x) = Inr (st', sc') \<longrightarrow>
           \<not> f_gt sc' (scf s)) \<and>
        (\<forall>x\<in>set pre. \<forall>st' sc'. match self q (embedding x) = Inr (st', sc') \<longrightarrow>
           \<not> f_ge sc' (scf s))"
    using ss r gt mx pr by (simp add: find_best_match_def m)
  then show "\<exists>pre s post st sc. students = pre @ s # post \<and>
        match self q (embedding s) = Inr (st, sc) \<and>
        find_best_match self q students =
          Inr (Some \<lparr>student_id = student_id s, name = name s, class_name = class_name s,
                     similarity = sc, status = st\<rparr>) \<and>
        f_gt sc (Fin (- 1)) \<and>
        (\<forall>x\<in>set students. \<forall>st' sc'. match self q (embedding x) = Inr (st', sc') \<longrightarrow>
           \<not> f_gt sc' sc) \<and>
        (\<forall>x\<in>set pre. \<forall>st' sc'. match self q (embedding x) = Inr (st', sc') \<longrightarrow>
           \<not> f_ge sc' sc)"
    by blast
next
  assume "match self q (embedding s1) = Inr (st1, Fin 0.5) \<and>
    match self q (embedding s2) = Inr (st2, Fin 0.7) \<and>
    match self q (embedding s3) = Inr (st3, Fin 0.7)"
  then show "find_best_match self q [s1, s2, s3] =
        Inr (Some \<lparr>student_id = student_id s2, name = name s2, class_name = class_name s2,
                   similarity = Fin 0.7, status = st2\<rparr>)"
    by (simp add: find_best_match_def)
qed

text \<open>
  A gallery scoring 0.5, 0.7, 0.7 under thresholds that reject all three: the second entry
  is returned, with the status NO\_MATCH.
\<close>

theorem find_best_match_first_max_witness:
  "find_best_match \<lparr>threshold_match = Fin 0.8, threshold_uncertain = Fin 0.75\<rparr>
     [Fin 1, Fin 0, Fin 0, Fin 0]
     [\<lparr>student_id = ''s1'', name = ''A'', class_name = None,
        embedding = [Fin 1, Fin 1, Fin 1, Fin 1]\<rparr>,
      \<lparr>student_id = ''s2'', name = ''B'', class_name = Some ''K1'',
        embedding = [Fin 7, Fin 7, Fin 1, Fin 1]\<rparr>,
      \<lparr>student_id = ''s3'', name = ''C'', class_name = Some ''K1'',
        embedding = [Fin 7, Fin 1, Fin 7, Fin 1]\<rparr>]
   = Inr (Some \<lparr>student_id = ''s2'', name = ''B'', class_name = Some ''K1'',
                similarity = Fin 0.7, status = ''NO_MATCH''\<rparr>)"
proof -
  let ?m = "\<lparr>threshold_match = Fin 0.8, threshold_uncertain = Fin 0.75\<rparr>"
  let ?q = "[Fin 1, Fin 0, Fin 0, Fin 0]"
  let ?s1 = "\<lparr>student_id = ''s1'', name = ''A'', class_name = None,
        embedding = [Fin 1, Fin 1, Fin 1, Fin 1]\<rparr>"
  let ?s2 = "\<lparr>student_id = ''s2'', name = ''B'', class_name = Some ''K1'',
        embedding = [Fin 7, Fin 7, Fin 1, Fin 1]\<rparr>"
  let ?s3 = "\<lparr>student_id = ''s3'', name = ''C'', class_name = Some ''K1'',
        embedding = [Fin 7, Fin 1, Fin 7, Fin 1]\<rparr>"
  have 1: "match ?m ?q (embedding ?s1) = Inr (''NO_MATCH'', Fin 0.5)"
    by (simp add: match_def cs_05)
  have 2: "match ?m ?q (embedding ?s2) = Inr (''NO_MATCH'', Fin 0.7)"
    by (simp add: match_def cs_07a)
  have 3: "match ?m ?q (embedding ?s3) = Inr (''NO_MATCH'', Fin 0.7)"
    by (simp add: match_def cs_07b)
  have "\<exists>x\<in>set [?s1, ?s2, ?s3]. \<exists>st sc. match ?m ?q (embedding x) = Inr (st, sc) \<and> f_gt sc (Fin (- 1))"
    using 1 by simp
  with find_best_match_first_max [of "[?s1, ?s2, ?s3]" ?m ?q ?s1 "''NO_MATCH''" ?s2 "''NO_MATCH''"
      ?s3 "''NO_MATCH''"] 1 2 3
  show ?thesis by simp
qed

text \<open>
  C2 as stated fails: the running best starts at \<open>-1\<close>, so a gallery whose only entry
  points opposite to the query (similarity \<open>-1\<close>) yields no entry at all.
\<close>

theorem find_best_match_bottom_score_counterexample:
  "find_best_match \<lparr>threshold_match = Fin 0.6, threshold_uncertain = Fin 0.4\<rparr>
     [Fin 1, Fin 0]
     [\<lparr>student_id = ''s1'', name = ''A'', class_name = None,
        embedding = [Fin (- 1), Fin 0]\<rparr>]
   = Inr None"
  by (simp add: find_best_match_def match_def cs_opposite)

text \<open>
  C4 (amended). With an empty gallery \<open>find_best_match\<close> returns \<open>None\<close>: no entry and
  no verdict, and no exception is raised.
\<close>

theorem find_best_match_empty: "find_best_match self q [] = Inr None"
  by (simp add: find_best_match_def)

text \<open>C4 as stated fails: the call with no candidates returns normally.\<close>

theorem find_best_match_empty_counterexample:
  "find_best_match \<lparr>threshold_match = Fin 0.6, threshold_uncertain = Fin 0.4\<rparr> [Fin 1, Fin 0] []
   = Inr None"
  by (simp add: find_best_match_def)

section \<open>\<open>cosine_similarity\<close>: zero vectors and vectors of different lengths\<close>

lemma f_add_NaN_right: "f_add x NaN = NaN"
  by (cases x) simp_all

lemma f_mul_NaN_right: "f_mul x NaN = NaN"
  by (cases x) simp_all

lemma np_sum_NaN: "NaN \<in> set xs \<Longrightarrow> np_sum xs = NaN"
  by (induction xs) (auto simp: f_add_NaN_right)

lemma cosine_similarity_try_raises:
  "cosine_similarity_try a b = Inl e \<longleftrightarrow> length a \<noteq> length b"
  by (cases e) (simp add: cosine_similarity_try_def np_dot_def np_div_scalar_def)

lemma cosine_similarity_mismatch:
  "length a \<noteq> length b \<Longrightarrow> cosine_similarity a b = Inr (Fin 0)"
  by (simp add: cosine_similarity_def cosine_similarity_try_def np_dot_def np_div_scalar_def)

text \<open>
  A sum of squares is NaN, or infinite, or a finite number that is not negative and that
  is zero only when every entry is zero.
\<close>

lemma sum_squares_cases:
  "np_sum (map (\<lambda>x. f_mul x x) v) = NaN \<or> np_sum (map (\<lambda>x. f_mul x x) v) = PInf \<or>
   (\<exists>s. np_sum (map (\<lambda>x. f_mul x x) v) = Fin s \<and> 0 \<le> s \<and> (s = 0 \<longrightarrow> (\<forall>x\<in>set v. x = Fin 0)))"
proof (induction v)
  case Nil
  then show ?case by simp
next
  case (Cons a v)
  show ?case
  proof (cases a)
    case (Fin r)
    from Cons.IH show ?thesis
    proof (elim disjE exE conjE)
      fix s
      assume s: "np_sum (map (\<lambda>x. f_mul x x) v) = Fin s" "0 \<le> s"
        "s = 0 \<longrightarrow> (\<forall>x\<in>set v. x = Fin 0)"
      have "r * r + s = 0 \<longrightarrow> r = 0 \<and> s = 0"
        using s(2) by (metis add_nonneg_eq_0_iff mult_eq_0_iff zero_le_square)
      then show ?thesis
        using s Fin by auto
    qed (simp_all add: Fin)
  next
    case PInf
    from Cons.IH show ?thesis
      by (elim disjE exE conjE) (simp_all add: PInf)
  next
    case MInf
    from Cons.IH show ?thesis
      by (elim disjE exE conjE) (simp_all add: MInf)
  next
    case NaN
    then show ?thesis by simp
  qed
qed

lemma zero_norm_entries: "np_norm v = Fin 0 \<Longrightarrow> \<forall>x\<in>set v. x = Fin 0"
  using sum_squares_cases [of v]
  by (auto simp: np_norm_def split: if_splits)

lemma zero_norm_normalized:
  assumes "np_norm v = Fin 0"
  shows "np_div_scalar v (np_norm v) = replicate (length v) NaN"
proof -
  have "map (\<lambda>x. f_div x (Fin 0)) v = map (\<lambda>x. NaN) v"
    using zero_norm_entries [OF assms] by (intro map_cong) auto
  then show ?thesis
    by (simp add: np_div_scalar_def assms map_replicate_const)
qed

lemma dot_NaN_left:
  "length b = n \<Longrightarrow> 0 < n \<Longrightarrow> np_dot (replicate n NaN) b = Inr NaN"
  by (cases n; cases b) (simp_all add: np_dot_def)

lemma dot_NaN_right:
  "length a = n \<Longrightarrow> 0 < n \<Longrightarrow> np_dot a (replicate n NaN) = Inr NaN"
  by (cases n; cases a) (simp_all add: np_dot_def f_mul_NaN_right)

lemma cosine_similarity_zero_norm_NaN:
  assumes "np_norm a = Fin 0 \<or> np_norm b = Fin 0" "length a = length b" "a \<noteq> []"
  shows "cosine_similarity a b = Inr NaN"
proof -
  have n: "0 < length a" "length (np_div_scalar a (np_norm a)) = length a"
    "length (np_div_scalar b (np_norm b)) = length a"
    using assms by (auto simp: np_div_scalar_def)
  from assms(1) have "cosine_similarity_try a b = Inr NaN"
  proof
    assume "np_norm a = Fin 0"
    then have "np_div_scalar a (np_norm a) = replicate (length a) NaN"
      by (rule zero_norm_normalized)
    then show ?thesis
      using n dot_NaN_left [of "np_div_scalar b (np_norm b)" "length a"]
      by (simp only: cosine_similarity_try_def Let_def)
  next
    assume "np_norm b = Fin 0"
    then have "np_div_scalar b (np_norm b) = replicate (length b) NaN"
      by (rule zero_norm_normalized)
    then have "np_div_scalar b (np_norm b) = replicate (length a) NaN"
      by (simp only: assms(2))
    then show ?thesis
      using n dot_NaN_right [of "np_div_scalar a (np_norm a)" "length a"]
      by (simp only: cosine_similarity_try_def Let_def)
  qed
  then show ?thesis
    by (simp add: cosine_similarity_def)
qed

lemma cs_mismatch: "cosine_similarity [Fin 1, Fin 0] [Fin 1, Fin 0, Fin 0] = Inr (Fin 0)"
  by (simp add: cs_defs)

lemma norm_zero_vec: "np_norm [Fin 0, Fin 0] = Fin 0"
  by (simp add: np_norm_def)

text \<open>
  C5 (amended). \<open>cosine_similarity\<close> signals no error when an input has norm zero, nor
  when the dimensions differ: it returns a number. With an input of norm zero and two
  vectors of one dimension that is not zero, the number is NaN; with vectors of different
  dimensions it is \<open>0.0\<close>.
\<close>

theorem cosine_similarity_zero_norm:
  "(np_norm a = Fin 0 \<or> np_norm b = Fin 0 \<longrightarrow>
      (\<exists>s. cosine_similarity a b = Inr s) \<and>
      (length a = length b \<and> a \<noteq> [] \<longrightarrow> cosine_similarity a b = Inr NaN)) \<and>
   (length a \<noteq> length b \<longrightarrow> cosine_similarity a b = Inr (Fin 0))"
  using cosine_similarity_returns [of a b] cosine_similarity_zero_norm_NaN [of a b]
    cosine_similarity_mismatch [of a b]
  by blast

text \<open>The zero vector against a unit vector of its dimension, and against a longer one.\<close>

theorem cosine_similarity_zero_norm_witness:
  "np_norm [Fin 0, Fin 0] = Fin 0 \<and>
   cosine_similarity [Fin 0, Fin 0] [Fin 1, Fin 0] = Inr NaN \<and>
   cosine_similarity [Fin 0, Fin 0] [Fin 1, Fin 0, Fin 0] = Inr (Fin 0)"
  using cosine_similarity_zero_norm [of "[Fin 0, Fin 0]" "[Fin 1, Fin 0]"]
    cosine_similarity_zero_norm [of "[Fin 0, Fin 0]" "[Fin 1, Fin 0, Fin 0]"]
  by (simp add: norm_zero_vec)

text \<open>
  C5 as stated fails: given the zero vector, the function returns normally, and what it
  returns is NaN.
\<close>

theorem cosine_similarity_zero_norm_counterexample:
  "cosine_similarity [Fin 0, Fin 0] [Fin 1, Fin 0] = Inr NaN"
  by (simp add: cs_defs)

text \<open>
  C9 (amended). \<open>cosine_similarity\<close> always returns a score and never signals an error.
  The computation fails on vectors of different dimensions; whenever it fails the score
  returned is \<open>0.0\<close>, and \<open>match\<close> gives such a pair the status NO\_MATCH for all
  thresholds that are strictly positive.
\<close>

theorem cosine_similarity_swallows_errors:
  "(\<exists>s. cosine_similarity a b = Inr s) \<and>
   (length a \<noteq> length b \<longrightarrow> cosine_similarity_try a b = Inl ValueError) \<and>
   (cosine_similarity_try a b = Inl e \<longrightarrow>
      cosine_similarity a b = Inr (Fin 0) \<and>
      (f_gt (threshold_match self) (Fin 0) \<and> f_gt (threshold_uncertain self) (Fin 0) \<longrightarrow>
         match self a b = Inr (''NO_MATCH'', Fin 0)))"
proof (intro conjI impI)
  show "\<exists>s. cosine_similarity a b = Inr s"
    by (rule cosine_similarity_returns)
  show "cosine_similarity_try a b = Inl ValueError" if "length a \<noteq> length b"
    using that by (simp add: cosine_similarity_try_raises)
  show cs: "cosine_similarity a b = Inr (Fin 0)" if "cosine_similarity_try a b = Inl e"
    using that by (simp add: cosine_similarity_def)
  show "match self a b = Inr (''NO_MATCH'', Fin 0)"
    if "cosine_similarity_try a b = Inl e"
      and "f_gt (threshold_match self) (Fin 0) \<and> f_gt (threshold_uncertain self) (Fin 0)"
  proof -
    have "\<not> f_ge (Fin 0) (threshold_match self)" "\<not> f_ge (Fin 0) (threshold_uncertain self)"
      using that(2) by (simp_all add: f_gt_not_ge)
    then show ?thesis
      using cs [OF that(1)] by (simp add: match_def)
  qed
qed

text \<open>A query of dimension 2 against a reference of dimension 3.\<close>

theorem cosine_similarity_swallows_errors_witness:
  "cosine_similarity_try [Fin 1, Fin 0] [Fin 1, Fin 0, Fin 0] = Inl ValueError \<and>
   cosine_similarity [Fin 1, Fin 0] [Fin 1, Fin 0, Fin 0] = Inr (Fin 0) \<and>
   match \<lparr>threshold_match = Fin 0.6, threshold_uncertain = Fin 0.4\<rparr>
     [Fin 1, Fin 0] [Fin 1, Fin 0, Fin 0] = Inr (''NO_MATCH'', Fin 0)"
  using cosine_similarity_swallows_errors [of "[Fin 1, Fin 0]" "[Fin 1, Fin 0, Fin 0]" ValueError
      "\<lparr>threshold_match = Fin 0.6, threshold_uncertain = Fin 0.4\<rparr>"]
  by simp

text \<open>
  C9 as stated fails for the uncertain threshold 0, which is not negative: the score
  \<open>0.0\<close> of a failed computation reaches it, and the status is UNCERTAIN.
\<close>

theorem match_zero_threshold_counterexample:
  "match \<lparr>threshold_match = Fin 0.6, threshold_uncertain = Fin 0\<rparr>
     [Fin 1, Fin 0] [Fin 1, Fin 0, Fin 0] = Inr (''UNCERTAIN'', Fin 0)"
  by (simp add: match_def cs_mismatch)

section \<open>The average of several embeddings\<close>

lemma np_array_equal_dims:
  "\<forall>e\<in>set embeddings. length e = d \<Longrightarrow> np_array embeddings = Inr embeddings"
  by (cases embeddings) (simp_all add: np_array_def list_all_iff)

lemma length_columns:
  "embeddings \<noteq> [] \<Longrightarrow> \<forall>e\<in>set embeddings. length e = d \<Longrightarrow> length (columns embeddings) = d"
  by (cases embeddings) (simp_all add: columns_def)

lemma compute_average_embedding_returns: "\<exists>r. compute_average_embedding embeddings = Inr r"
  by (simp add: compute_average_embedding_def split: sum.split)

lemma compute_average_embedding_equal_dims:
  assumes "embeddings \<noteq> []" "\<forall>e\<in>set embeddings. length e = d"
  shows "compute_average_embedding embeddings =
    Inr (Some (np_div_scalar (np_mean_axis0 embeddings) (np_norm (np_mean_axis0 embeddings))))"
  using assms np_array_equal_dims [of embeddings d]
  by (simp add: compute_average_embedding_def compute_average_embedding_try_def Let_def)

lemma f_add_zero_right: "f_add x (Fin 0) = x"
  by (cases x) simp_all

lemma f_div_one: "f_div x (Fin 1) = x"
  by (cases x) simp_all

text \<open>
  C6 (amended). \<open>compute_average_embedding\<close> called with no embedding returns \<open>None\<close>
  and signals no error. For every input it returns normally, with \<open>None\<close> or with one
  vector; for embeddings of one dimension, at least one of them, it returns one vector of
  that dimension.
\<close>

theorem compute_average_embedding_empty:
  "compute_average_embedding [] = Inr None \<and>
   (\<exists>r. compute_average_embedding embeddings = Inr r) \<and>
   (embeddings \<noteq> [] \<and> (\<forall>e\<in>set embeddings. length e = d) \<longrightarrow>
      (\<exists>v. compute_average_embedding embeddings = Inr (Some v) \<and> length v = d))"
proof (intro conjI impI)
  show "compute_average_embedding [] = Inr None"
    by (simp add: compute_average_embedding_def compute_average_embedding_try_def Let_def)
  show "\<exists>r. compute_average_embedding embeddings = Inr r"
    by (rule compute_average_embedding_returns)
  assume a: "embeddings \<noteq> [] \<and> (\<forall>e\<in>set embeddings. length e = d)"
  then have "length (np_div_scalar (np_mean_axis0 embeddings) (np_norm (np_mean_axis0 embeddings))) = d"
    by (simp add: np_div_scalar_def np_mean_axis0_def length_columns)
  then show "\<exists>v. compute_average_embedding embeddings = Inr (Some v) \<and> length v = d"
    using a compute_average_embedding_equal_dims [of embeddings d] by simp
qed

text \<open>The average of the single embedding \<open>(3, 4)\<close>.\<close>

lemma avg_34: "compute_average_embedding [[Fin 3, Fin 4]] = Inr (Some [Fin 0.6, Fin 0.8])"
  by (simp add: compute_average_embedding_def compute_average_embedding_try_def Let_def np_array_def
      np_mean_axis0_def columns_def np_mean_def np_norm_def np_div_scalar_def sqrt_25 upt_rec)

text \<open>One embedding of dimension 2 gives one vector of dimension 2.\<close>

theorem compute_average_embedding_empty_witness:
  "compute_average_embedding [[Fin 3, Fin 4]] = Inr (Some [Fin 0.6, Fin 0.8]) \<and>
   length [Fin (0.6::real), Fin 0.8] = 2"
  using compute_average_embedding_empty [of "[[Fin 3, Fin 4]]" 2]
  by (simp add: avg_34)

text \<open>
  C6 as stated fails: the call with no embedding returns normally; and two opposite
  embeddings, whose mean is the zero vector, give a vector of NaNs, which is neither a
  valid template nor a failure.
\<close>

theorem compute_average_embedding_empty_counterexample:
  "compute_average_embedding [] = Inr None \<and>
   compute_average_embedding [[Fin 1, Fin 0], [Fin (- 1), Fin 0]] = Inr (Some [NaN, NaN])"
  by (simp add: compute_average_embedding_def compute_average_embedding_try_def Let_def np_array_def
      np_mean_axis0_def columns_def np_mean_def np_norm_def np_div_scalar_def upt_rec)

section \<open>NumPy's functions and the specification's formulas\<close>

text \<open>
  The functions that model NumPy compute what the formulas of the specification say.
  Nothing here depends on a law of arithmetic: both sides combine the same numbers with
  the same operations in the same order.
\<close>

lemma np_sum_spec: "np_sum xs = spec_sum xs"
  by (induction xs) (simp_all add: spec_sum_def)

lemma np_norm_spec: "np_norm v = spec_l2_norm v"
  by (simp add: np_norm_def spec_l2_norm_def np_sum_spec)

lemma np_normalize_spec: "np_div_scalar v (np_norm v) = spec_l2_normalize v"
  by (simp add: np_div_scalar_def spec_l2_normalize_def np_norm_spec)

lemma np_dot_spec: "length a = length b \<Longrightarrow> np_dot a b = Inr (spec_dot a b)"
  by (simp add: np_dot_def spec_dot_def np_sum_spec)

lemma column_by_index:
  "map (\<lambda>row. row ! i) embeddings = map (\<lambda>j. embeddings ! j ! i) [0..<length embeddings]"
  by (rule nth_equalityI) simp_all

lemma columns_transpose:
  assumes "embeddings \<noteq> []" "\<forall>e\<in>set embeddings. length e = d"
  shows "columns embeddings = transpose embeddings"
proof -
  have d: "length (hd embeddings) = d"
    using assms by (cases embeddings) simp_all
  have "transpose embeddings =
      map (\<lambda>i. map (\<lambda>j. embeddings ! j ! i) [0..<length embeddings]) [0..<d]"
    using assms by (intro transpose_rectangle) simp_all
  also have "\<dots> = map (\<lambda>i. map (\<lambda>row. row ! i) embeddings) [0..<d]"
    by (simp only: column_by_index)
  also have "\<dots> = columns embeddings"
    by (simp only: columns_def d)
  finally show ?thesis
    by (rule sym)
qed

lemma np_mean_axis0_spec:
  assumes "embeddings \<noteq> []" "\<forall>e\<in>set embeddings. length e = d"
  shows "np_mean_axis0 embeddings = spec_mean embeddings"
proof -
  have "length col = length embeddings" if "col \<in> set (transpose embeddings)" for col
  proof -
    from that have "col \<in> set (columns embeddings)"
      by (simp only: columns_transpose [OF assms])
    then show ?thesis
      by (auto simp: columns_def)
  qed
  then have "map np_mean (transpose embeddings) = spec_mean embeddings"
    unfolding spec_mean_def by (intro map_cong) (simp_all add: np_mean_def np_sum_spec)
  then show ?thesis
    by (simp add: np_mean_axis0_def columns_transpose [OF assms])
qed

text \<open>
  The average is the element-wise mean of the inputs, L2-normalized; for a single
  embedding it is that embedding, L2-normalized (its sum with nothing and its quotient
  by one are the number itself, also in floating-point arithmetic).
\<close>

lemma compute_average_embedding_normalized_mean:
  assumes "embeddings \<noteq> []" "\<forall>e\<in>set embeddings. length e = d"
  shows "compute_average_embedding embeddings =
    Inr (Some (spec_l2_normalize (spec_mean embeddings)))"
  using compute_average_embedding_equal_dims [OF assms]
  by (simp add: np_normalize_spec np_mean_axis0_spec [OF assms])

lemma spec_mean_single: "spec_mean [v] = v"
proof -
  have "np_mean_axis0 [v] = map (\<lambda>j. v ! j) [0..<length v]"
    by (simp add: np_mean_axis0_def columns_def np_mean_def f_add_zero_right f_div_one)
  then have "np_mean_axis0 [v] = v"
    by (simp add: map_nth)
  then show ?thesis
    using np_mean_axis0_spec [of "[v]" "length v"] by simp
qed

lemma compute_average_embedding_single:
  "compute_average_embedding [v] = Inr (Some (spec_l2_normalize v))"
  using compute_average_embedding_normalized_mean [of "[v]" "length v"]
  by (simp add: spec_mean_single)

section \<open>The outlier filter\<close>

lemma similarities_loop_equal_dims:
  "\<forall>e\<in>set embeddings. length e = length centroid \<Longrightarrow>
   similarities_loop centroid embeddings =
     Inr (map (\<lambda>emb. spec_dot (spec_l2_normalize emb) centroid) embeddings)"
proof (induction embeddings)
  case Nil
  then show ?case by simp
next
  case (Cons emb embeddings)
  have "length (spec_l2_normalize emb) = length centroid"
    using Cons.prems by (simp add: spec_l2_normalize_def)
  then have "np_dot (np_div_scalar emb (np_norm emb)) centroid =
      Inr (spec_dot (spec_l2_normalize emb) centroid)"
    by (simp add: np_normalize_spec np_dot_spec)
  then show ?case
    using Cons by (simp add: Let_def)
qed

lemma filter_zip_map:
  "map fst (filter (\<lambda>(x, y). P y) (zip xs (map f xs))) = filter (\<lambda>x. P (f x)) xs"
  by (induction xs) simp_all

lemma length_spec_centroid:
  assumes "embeddings \<noteq> []" "\<forall>e\<in>set embeddings. length e = d"
  shows "length (spec_centroid embeddings) = d"
proof -
  have "length (spec_centroid embeddings) = length (np_mean_axis0 embeddings)"
    by (simp add: spec_centroid_def spec_l2_normalize_def np_mean_axis0_spec [OF assms])
  then show ?thesis
    using assms by (simp add: np_mean_axis0_def length_columns)
qed

text \<open>On embeddings of one dimension nothing raises, and the loop and the filter agree.\<close>

lemma filter_outliers_try_equal_dims:
  assumes ne: "embeddings \<noteq> []" and eq: "\<forall>e\<in>set embeddings. length e = d"
  shows "filter_outliers_try embeddings threshold = Inr (spec_filter_outliers embeddings threshold)"
proof (cases "length embeddings \<le> 2")
  case True
  then show ?thesis
    by (simp add: filter_outliers_try_def spec_filter_outliers_def)
next
  case False
  let ?c = "spec_centroid embeddings"
  let ?f = "\<lambda>emb. spec_dot (spec_l2_normalize emb) ?c"
  have c: "np_div_scalar (np_mean_axis0 embeddings) (np_norm (np_mean_axis0 embeddings)) = ?c"
    by (simp add: np_normalize_spec np_mean_axis0_spec [OF ne eq] spec_centroid_def)
  have len: "\<forall>e\<in>set embeddings. length e = length ?c"
    using eq by (simp add: length_spec_centroid [OF ne eq])
  have sims: "similarities_loop ?c embeddings = Inr (map ?f embeddings)"
    using len by (rule similarities_loop_equal_dims)
  have kept: "filter (spec_keeps embeddings threshold) embeddings =
      filter (\<lambda>emb. f_ge (?f emb) threshold) embeddings"
    by (simp add: spec_keeps_def [abs_def])
  have "map fst (filter (\<lambda>(emb, sim). f_ge sim threshold) (zip embeddings (map ?f embeddings))) =
      filter (\<lambda>emb. f_ge (?f emb) threshold) embeddings"
    by (rule filter_zip_map)
  then show ?thesis
    using False sims kept np_array_equal_dims [OF eq]
    by (simp add: filter_outliers_try_def spec_filter_outliers_def Let_def c)
qed

lemma filter_outliers_try_nonempty:
  "embeddings \<noteq> [] \<Longrightarrow> filter_outliers_try embeddings threshold = Inr r \<Longrightarrow> r \<noteq> []"
  by (auto simp: filter_outliers_try_def Let_def split: if_splits sum.splits)

lemma filter_outliers_nonempty:
  assumes "embeddings \<noteq> []"
  shows "\<exists>r. filter_outliers embeddings threshold = Inr r \<and> r \<noteq> []"
proof (cases "filter_outliers_try embeddings threshold")
  case (Inl e)
  then show ?thesis
    using assms by (simp add: filter_outliers_def)
next
  case (Inr r)
  then show ?thesis
    using assms filter_outliers_try_nonempty [of embeddings threshold r]
    by (simp add: filter_outliers_def)
qed

text \<open>
  C3. For embeddings of one dimension, at least one of them, and every threshold,
  \<open>filter_outliers\<close> returns what the specification describes: the input as it is when
  it has at most two members; else the inputs whose L2-normalized form has a similarity
  of at least the threshold to the centroid, the L2-normalized mean of the inputs, in
  their order; and the input as it is when no member would be kept. The result for an
  input that is not empty is never empty. The default threshold is 0.3.
\<close>

theorem filter_outliers_spec:
  "(embeddings \<noteq> [] \<and> (\<forall>e\<in>set embeddings. length e = d) \<longrightarrow>
      filter_outliers embeddings threshold = Inr (spec_filter_outliers embeddings threshold) \<and>
      (length embeddings \<le> 2 \<longrightarrow> filter_outliers embeddings threshold = Inr embeddings) \<and>
      (2 < length embeddings \<and> filter (spec_keeps embeddings threshold) embeddings \<noteq> [] \<longrightarrow>
         filter_outliers embeddings threshold =
           Inr (filter (spec_keeps embeddings threshold) embeddings)) \<and>
      (2 < length embeddings \<and> filter (spec_keeps embeddings threshold) embeddings = [] \<longrightarrow>
         filter_outliers embeddings threshold = Inr embeddings)) \<and>
   (embeddings \<noteq> [] \<longrightarrow> (\<exists>r. filter_outliers embeddings threshold = Inr r \<and> r \<noteq> [])) \<and>
   filter_outliers_default embeddings = filter_outliers embeddings (Fin 0.3)"
proof (intro conjI impI)
  assume a: "embeddings \<noteq> [] \<and> (\<forall>e\<in>set embeddings. length e = d)"
  then have "filter_outliers_try embeddings threshold = Inr (spec_filter_outliers embeddings threshold)"
    using filter_outliers_try_equal_dims [of embeddings d threshold] by blast
  then show r: "filter_outliers embeddings threshold = Inr (spec_filter_outliers embeddings threshold)"
    by (simp add: filter_outliers_def)
  show "filter_outliers embeddings threshold = Inr embeddings" if "length embeddings \<le> 2"
    using that r by (simp add: spec_filter_outliers_def)
  show "filter_outliers embeddings threshold = Inr (filter (spec_keeps embeddings threshold) embeddings)"
    if "2 < length embeddings \<and> filter (spec_keeps embeddings threshold) embeddings \<noteq> []"
    using that r by (simp add: spec_filter_outliers_def)
  show "filter_outliers embeddings threshold = Inr embeddings"
    if "2 < length embeddings \<and> filter (spec_keeps embeddings threshold) embeddings = []"
    using that r by (simp add: spec_filter_outliers_def)
next
  show "\<exists>r. filter_outliers embeddings threshold = Inr r \<and> r \<noteq> []" if "embeddings \<noteq> []"
    using that by (rule filter_outliers_nonempty)
  show "filter_outliers_default embeddings = filter_outliers embeddings (Fin 0.3)"
    by (simp add: filter_outliers_default_def)
qed

text \<open>Two embeddings along \<open>(3, 4)\<close> and one against it.\<close>

lemma centroid_example:
  "spec_centroid [[Fin 6, Fin 8], [Fin 6, Fin 8], [Fin (- 3), Fin (- 4)]] = [Fin 0.6, Fin 0.8]"
proof -
  let ?E = "[[Fin 6, Fin 8], [Fin 6, Fin 8], [Fin (- 3), Fin (- 4)]]"
  have "spec_mean ?E = np_mean_axis0 ?E"
    using np_mean_axis0_spec [of ?E 2] by simp
  also have "\<dots> = [Fin 3, Fin 4]"
    by (simp add: np_mean_axis0_def columns_def np_mean_def upt_rec)
  finally show ?thesis
    by (simp add: spec_centroid_def spec_l2_normalize_def spec_l2_norm_def spec_sum_def sqrt_25)
qed

lemma keeps_example:
  "spec_keeps [[Fin 6, Fin 8], [Fin 6, Fin 8], [Fin (- 3), Fin (- 4)]] (Fin 0.3) [Fin 6, Fin 8]"
  "\<not> spec_keeps [[Fin 6, Fin 8], [Fin 6, Fin 8], [Fin (- 3), Fin (- 4)]] (Fin 0.3) [Fin (- 3), Fin (- 4)]"
  "\<not> spec_keeps [[Fin 6, Fin 8], [Fin 6, Fin 8], [Fin (- 3), Fin (- 4)]] (Fin 2) [Fin 6, Fin 8]"
  "\<not> spec_keeps [[Fin 6, Fin 8], [Fin 6, Fin 8], [Fin (- 3), Fin (- 4)]] (Fin 2) [Fin (- 3), Fin (- 4)]"
  by (simp_all add: spec_keeps_def centroid_example spec_l2_normalize_def spec_l2_norm_def
      spec_dot_def spec_sum_def sqrt_25 sqrt_100)

lemma spec_filter_example:
  "spec_filter_outliers [[Fin 6, Fin 8], [Fin 6, Fin 8], [Fin (- 3), Fin (- 4)]] (Fin 0.3)
     = [[Fin 6, Fin 8], [Fin 6, Fin 8]]"
  "spec_filter_outliers [[Fin 6, Fin 8], [Fin 6, Fin 8], [Fin (- 3), Fin (- 4)]] (Fin 2)
     = [[Fin 6, Fin 8], [Fin 6, Fin 8], [Fin (- 3), Fin (- 4)]]"
  "spec_filter_outliers [[Fin 6, Fin 8], [Fin (- 3), Fin (- 4)]] (Fin 0.3)
     = [[Fin 6, Fin 8], [Fin (- 3), Fin (- 4)]]"
  by (simp_all add: spec_filter_outliers_def keeps_example)

text \<open>
  With the threshold 0.3 the opposite embedding is removed; with the threshold 2 nothing
  would be kept and the input is returned; two embeddings are returned as they are.
\<close>

theorem filter_outliers_spec_witness:
  "filter_outliers [[Fin 6, Fin 8], [Fin 6, Fin 8], [Fin (- 3), Fin (- 4)]] (Fin 0.3)
     = Inr [[Fin 6, Fin 8], [Fin 6, Fin 8]] \<and>
   filter_outliers [[Fin 6, Fin 8], [Fin 6, Fin 8], [Fin (- 3), Fin (- 4)]] (Fin 2)
     = Inr [[Fin 6, Fin 8], [Fin 6, Fin 8], [Fin (- 3), Fin (- 4)]] \<and>
   filter_outliers [[Fin 6, Fin 8], [Fin (- 3), Fin (- 4)]] (Fin 0.3)
     = Inr [[Fin 6, Fin 8], [Fin (- 3), Fin (- 4)]]"
  using filter_outliers_spec [of "[[Fin 6, Fin 8], [Fin 6, Fin 8], [Fin (- 3), Fin (- 4)]]" 2 "Fin 0.3"]
    filter_outliers_spec [of "[[Fin 6, Fin 8], [Fin 6, Fin 8], [Fin (- 3), Fin (- 4)]]" 2 "Fin 2"]
    filter_outliers_spec [of "[[Fin 6, Fin 8], [Fin (- 3), Fin (- 4)]]" 2 "Fin 0.3"]
  by (simp add: spec_filter_example)

section \<open>The robust embedding\<close>

lemma length_np_sort_aux:
  "length (filter (\<lambda>x. x = MInf) col) + length (fin_values col) +
   length (filter (\<lambda>x. x = PInf) col) + length (filter (\<lambda>x. x = NaN) col) = length col"
proof (induction col)
  case Nil
  then show ?case by simp
next
  case (Cons a col)
  then show ?case by (cases a) simp_all
qed

lemma length_np_sort: "length (np_sort col) = length col"
  using length_np_sort_aux [of col] by (simp add: np_sort_def)

lemma length_column:
  "col \<in> set (columns embeddings) \<Longrightarrow> length col = length embeddings"
  by (auto simp: columns_def)

lemma n_remove_of_pos: "1 \<le> n_remove_of n"
  by (simp add: n_remove_of_def)


text \<open>The slice drops \<open>k\<close> entries at each end of a sorted column.\<close>

lemma trim_eq: "trim k xs = take (length xs - 2 * k) (drop k xs)"
  by (simp add: trim_def drop_take mult_2)

lemma trim_small: "length xs \<le> 2 \<Longrightarrow> trim (n_remove_of (length xs)) xs = []"
  by (simp add: trim_def n_remove_of_def)

lemma trim_large: "3 \<le> length xs \<Longrightarrow> trim (n_remove_of (length xs)) xs \<noteq> []"
proof -
  assume a: "3 \<le> length xs"
  have "length (trim (n_remove_of (length xs)) xs) = length xs - 2 * n_remove_of (length xs)"
    by (simp add: trim_eq)
  moreover have "2 * n_remove_of (length xs) < length xs"
    using a unfolding n_remove_of_def max_def by (simp split: if_splits) arith
  ultimately have "0 < length (trim (n_remove_of (length xs)) xs)"
    by simp
  then show ?thesis
    by auto
qed

lemma compute_robust_embedding_returns: "\<exists>r. compute_robust_embedding embeddings method = Inr r"
  by (simp add: compute_robust_embedding_def split: sum.split)



lemma compute_robust_embedding_trimmed:
  assumes "embeddings \<noteq> []" "\<forall>e\<in>set embeddings. length e = d"
  shows "compute_robust_embedding embeddings ''trimmed_mean'' =
    Inr (Some (np_div_scalar
                 (map (\<lambda>col. np_mean (trim (n_remove_of (length embeddings)) (np_sort col)))
                    (columns embeddings))
                 (np_norm
                    (map (\<lambda>col. np_mean (trim (n_remove_of (length embeddings)) (np_sort col)))
                       (columns embeddings)))))"
  using assms np_array_equal_dims [of embeddings d]
  by (simp add: compute_robust_embedding_def compute_robust_embedding_try_def Let_def comp_def)










text \<open>
  C10. With one or two embeddings (of one dimension) the method \<open>trimmed_mean\<close> drops one
  value at each end of every dimension, which leaves nothing; the mean of nothing is NaN,
  and the function returns a vector of NaNs, not \<open>None\<close>. With three embeddings or more
  something is left in every dimension.
\<close>

theorem trimmed_mean_needs_three:
  "(embeddings \<noteq> [] \<and> length embeddings \<le> 2 \<and> (\<forall>e\<in>set embeddings. length e = d) \<longrightarrow>
      (\<forall>col\<in>set (columns embeddings).
         trim (n_remove_of (length embeddings)) (np_sort col) = []) \<and>
      compute_robust_embedding embeddings ''trimmed_mean'' = Inr (Some (replicate d NaN))) \<and>
   (3 \<le> length embeddings \<longrightarrow>
      (\<forall>col\<in>set (columns embeddings).
         trim (n_remove_of (length embeddings)) (np_sort col) \<noteq> []))"
proof (intro conjI impI ballI)
  fix col
  assume a: "embeddings \<noteq> [] \<and> length embeddings \<le> 2 \<and> (\<forall>e\<in>set embeddings. length e = d)"
    and "col \<in> set (columns embeddings)"
  then have "length (np_sort col) = length embeddings"
    by (simp add: length_np_sort length_column)
  then show "trim (n_remove_of (length embeddings)) (np_sort col) = []"
    using a trim_small [of "np_sort col"] by simp
next
  assume a: "embeddings \<noteq> [] \<and> length embeddings \<le> 2 \<and> (\<forall>e\<in>set embeddings. length e = d)"
  have "trim (n_remove_of (length embeddings)) (np_sort col) = []"
    if "col \<in> set (columns embeddings)" for col
    using that a trim_small [of "np_sort col"] by (simp add: length_np_sort length_column)
  then have "map (\<lambda>col. np_mean (trim (n_remove_of (length embeddings)) (np_sort col)))
      (columns embeddings) = map (\<lambda>col. NaN) (columns embeddings)"
    by (intro map_cong) (simp_all add: np_mean_def)
  also have "\<dots> = replicate d NaN"
    using a by (simp add: map_replicate_const length_columns)
  finally have "compute_robust_embedding embeddings ''trimmed_mean'' =
      Inr (Some (np_div_scalar (replicate d NaN) (np_norm (replicate d NaN))))"
    using a compute_robust_embedding_trimmed [of embeddings d] by simp
  then show "compute_robust_embedding embeddings ''trimmed_mean'' = Inr (Some (replicate d NaN))"
    by (simp add: np_div_scalar_def)
next
  fix col
  assume "3 \<le> length embeddings" and "col \<in> set (columns embeddings)"
  then have "3 \<le> length (np_sort col)" "length (np_sort col) = length embeddings"
    by (simp_all add: length_np_sort length_column)
  then show "trim (n_remove_of (length embeddings)) (np_sort col) \<noteq> []"
    using trim_large [of "np_sort col"] by simp
qed

text \<open>One embedding, two embeddings, and a column of three values.\<close>

theorem trimmed_mean_needs_three_witness:
  "compute_robust_embedding [[Fin 3, Fin 4]] ''trimmed_mean'' = Inr (Some [NaN, NaN]) \<and>
   compute_robust_embedding [[Fin 3, Fin 4], [Fin 6, Fin 8]] ''trimmed_mean''
     = Inr (Some [NaN, NaN]) \<and>
   trim (n_remove_of 3) (np_sort [Fin 3, Fin 100, Fin 0]) \<noteq> []"
  using trimmed_mean_needs_three [of "[[Fin 3, Fin 4]]" 2]
    trimmed_mean_needs_three [of "[[Fin 3, Fin 4], [Fin 6, Fin 8]]" 2]
    trimmed_mean_needs_three [of "[[Fin 3, Fin 9], [Fin 100, Fin 4], [Fin 0, Fin 0]]" 2]
  by (simp add: columns_def upt_rec numeral_2_eq_2 numeral_3_eq_3)

end
